theory Spec2Isabelle
  imports Complex_Main "HOL-Library.AList"
begin

section \<open>The item service of \<open>main.py\<close>\<close>

subsection \<open>Data model\<close>

text \<open>
  The two pydantic models. An optional field is an \<open>option\<close>, with \<open>None\<close> for Python's
  \<open>None\<close>, the default of \<open>description\<close> and \<open>tax\<close>. The handlers only store and return
  \<open>price\<close> and \<open>tax\<close>, never compute with them; a finite float is the real number it
  denotes. The field \<open>id\<close> of \<open>Item\<close> is written \<open>id'\<close>, as \<open>id\<close> is the identity
  function of HOL.
\<close>

record ItemCreate =
  name :: string
  description :: "string option"
  price :: real
  tax :: "real option"

record Item =
  id' :: string
  name :: string
  description :: "string option"
  price :: real
  tax :: "real option"

text \<open>
  The exceptions a handler can raise: \<open>HTTPException(status_code=..., detail=...)\<close>, and
  the \<open>KeyError\<close> of a dictionary read or \<open>del\<close> at a key that is not there. A handler
  that raises returns \<open>Inl\<close> of the exception, one that returns a value returns \<open>Inr\<close>
  of it.
\<close>

datatype exception =
    HTTPException nat string
  | KeyError string


definition HTTP_200_OK :: nat where
  "HTTP_200_OK = 200"

definition HTTP_204_NO_CONTENT :: nat where
  "HTTP_204_NO_CONTENT = 204"

definition HTTP_404_NOT_FOUND :: nat where
  "HTTP_404_NOT_FOUND = 404"

definition HTTP_500_INTERNAL_SERVER_ERROR :: nat where
  "HTTP_500_INTERNAL_SERVER_ERROR = 500"

text \<open>
  \<open>fake_db: Dict[str, Item]\<close>. A Python dictionary keeps its keys in insertion order and
  \<open>read_items\<close> returns \<open>list(fake_db.values())\<close>, so the store is an association list:
  \<open>k in d\<close> is \<open>dict_contains\<close>, \<open>d[k]\<close> is \<open>dict_getitem\<close> and raises \<open>KeyError\<close>
  at a missing key, \<open>d[k] = v\<close> is \<open>dict_setitem\<close> (the value is replaced in place when the
  key is there and appended when it is not), \<open>del d[k]\<close> is \<open>dict_delitem\<close> and raises
  \<open>KeyError\<close> at a missing key, \<open>list(d.values())\<close> is \<open>dict_values\<close>. The store of a
  starting service is \<open>[]\<close>.
\<close>

type_synonym fake_db = "(string \<times> Item) list"

definition dict_contains :: "fake_db \<Rightarrow> string \<Rightarrow> bool" where
  "dict_contains d k = (map_of d k \<noteq> None)"

definition dict_getitem :: "fake_db \<Rightarrow> string \<Rightarrow> exception + Item" where
  "dict_getitem d k = (case map_of d k of None \<Rightarrow> Inl (KeyError k) | Some v \<Rightarrow> Inr v)"

definition dict_setitem :: "fake_db \<Rightarrow> string \<Rightarrow> Item \<Rightarrow> fake_db" where
  "dict_setitem d k v = AList.update k v d"

definition dict_delitem :: "fake_db \<Rightarrow> string \<Rightarrow> exception + fake_db" where
  "dict_delitem d k = (if dict_contains d k then Inr (AList.delete k d) else Inl (KeyError k))"

definition dict_values :: "fake_db \<Rightarrow> Item list" where
  "dict_values d = map snd d"

subsection \<open>The handlers\<close>

text \<open>
  Each handler takes the store and returns what it returns or raises, with the store it
  leaves behind. \<open>create_item\<close> takes as its first argument the string that
  \<open>str(uuid.uuid4())\<close> evaluates to in that call: the draw is an effect of the
  environment, and the handler does not look at the store before it uses the string as a key.
\<close>

definition create_item :: "string \<Rightarrow> ItemCreate \<Rightarrow> fake_db \<Rightarrow> (exception + Item) \<times> fake_db" where
  "create_item item_id item fake_db =
     (let new_item = \<lparr>id' = item_id, name = ItemCreate.name item,
                      description = ItemCreate.description item,
                      price = ItemCreate.price item, tax = ItemCreate.tax item\<rparr>
      in (Inr new_item, dict_setitem fake_db item_id new_item))"

definition read_items :: "fake_db \<Rightarrow> (exception + Item list) \<times> fake_db" where
  "read_items fake_db = (Inr (dict_values fake_db), fake_db)"

definition read_item :: "string \<Rightarrow> fake_db \<Rightarrow> (exception + Item) \<times> fake_db" where
  "read_item item_id fake_db =
     (if \<not> dict_contains fake_db item_id
      then (Inl (HTTPException HTTP_404_NOT_FOUND ''Elemento no encontrado''), fake_db)
      else (dict_getitem fake_db item_id, fake_db))"

definition update_item :: "string \<Rightarrow> ItemCreate \<Rightarrow> fake_db \<Rightarrow> (exception + Item) \<times> fake_db" where
  "update_item item_id item fake_db =
     (if \<not> dict_contains fake_db item_id
      then (Inl (HTTPException HTTP_404_NOT_FOUND ''Elemento no encontrado''), fake_db)
      else (let updated_item = \<lparr>id' = item_id, name = ItemCreate.name item,
                                description = ItemCreate.description item,
                                price = ItemCreate.price item, tax = ItemCreate.tax item\<rparr>
            in (Inr updated_item, dict_setitem fake_db item_id updated_item)))"

definition delete_item :: "string \<Rightarrow> fake_db \<Rightarrow> (exception + (string \<times> string) list) \<times> fake_db" where
  "delete_item item_id fake_db =
     (if \<not> dict_contains fake_db item_id
      then (Inl (HTTPException HTTP_404_NOT_FOUND ''Elemento no encontrado''), fake_db)
      else (case dict_delitem fake_db item_id of
              Inl exc \<Rightarrow> (Inl exc, fake_db)
            | Inr fake_db' \<Rightarrow> (Inr [(''message'', ''Elemento eliminado exitosamente'')], fake_db')))"



definition read_item_status :: nat where
  "read_item_status = HTTP_200_OK"

definition update_item_status :: nat where
  "update_item_status = HTTP_200_OK"

definition delete_item_status :: nat where
  "delete_item_status = HTTP_204_NO_CONTENT"

definition response_status :: "nat \<Rightarrow> exception + 'a \<Rightarrow> nat" where
  "response_status route_status result =
     (case result of
        Inl (HTTPException code _) \<Rightarrow> code
      | Inl (KeyError _) \<Rightarrow> HTTP_500_INTERNAL_SERVER_ERROR
      | Inr _ \<Rightarrow> route_status)"

text \<open>
  The body of the answer. \<open>main.py\<close> leaves it to the framework, whose routing builds the
  answer from what the handler returns or raises: the returned value as JSON, the
  \<open>detail\<close> of an \<open>HTTPException\<close> as the JSON object \<open>{"detail": ...}\<close>, the text
  \<open>Internal Server Error\<close> for any other exception. Where the status code is one that
  allows no body (below 200, or 204, 205, 304: the framework's
  \<open>is_body_allowed_for_status_code\<close>), the framework empties the body, whatever the
  handler returned. This is what the docstring of \<open>delete_item\<close> states of the route:
  it returns nothing, with the status 204.
\<close>

datatype 'a body =
    Empty
  | Json 'a
  | Detail string
  | PlainText string

definition is_body_allowed_for_status_code :: "nat \<Rightarrow> bool" where
  "is_body_allowed_for_status_code code =
     (\<not> (code < 200 \<or> code = 204 \<or> code = 205 \<or> code = 304))"

definition response_body :: "nat \<Rightarrow> exception + 'a \<Rightarrow> 'a body" where
  "response_body route_status result =
     (case result of
        Inl (HTTPException code detail) \<Rightarrow>
          (if is_body_allowed_for_status_code code then Detail detail else Empty)
      | Inl (KeyError _) \<Rightarrow> PlainText ''Internal Server Error''
      | Inr content \<Rightarrow>
          (if is_body_allowed_for_status_code route_status then Json content else Empty))"

text \<open>The exception that \<open>read_item\<close>, \<open>update_item\<close> and \<open>delete_item\<close> raise.\<close>

definition NotFound :: exception where
  "NotFound = HTTPException HTTP_404_NOT_FOUND ''Elemento no encontrado''"


subsection \<open>Requests\<close>

text \<open>
  The five routes of the application. A request to \<open>POST /items/\<close> carries, beside its
  body, the string drawn by \<open>uuid4\<close> while it is served. \<open>serve\<close> is the store after one
  request, \<open>run\<close> the store after a sequence of requests.
\<close>

datatype request =
    POST_items string ItemCreate
  | GET_items
  | GET_item string
  | PUT_item string ItemCreate
  | DELETE_item string

fun serve :: "request \<Rightarrow> fake_db \<Rightarrow> fake_db" where
  "serve (POST_items item_id item) fake_db = snd (create_item item_id item fake_db)"
| "serve GET_items fake_db = snd (read_items fake_db)"
| "serve (GET_item item_id) fake_db = snd (read_item item_id fake_db)"
| "serve (PUT_item item_id item) fake_db = snd (update_item item_id item fake_db)"
| "serve (DELETE_item item_id) fake_db = snd (delete_item item_id fake_db)"

fun run :: "request list \<Rightarrow> fake_db \<Rightarrow> fake_db" where
  "run [] fake_db = fake_db"
| "run (r # rs) fake_db = run rs (serve r fake_db)"

text \<open>The strings drawn by \<open>uuid4\<close> during a sequence of requests, in order.\<close>

fun drawn :: "request list \<Rightarrow> string list" where
  "drawn [] = []"
| "drawn (POST_items item_id item # rs) = item_id # drawn rs"
| "drawn (r # rs) = drawn rs"


text \<open>Every record of the store has as its \<open>id\<close> the key it is stored under.\<close>

definition id_is_key :: "fake_db \<Rightarrow> bool" where
  "id_is_key d = list_all (\<lambda>(k, v). id' v = k) d"

subsection \<open>Example data\<close>

text \<open>
  The inputs of the specification's scenarios: an item with a description, an input that
  leaves the description out, the records stored for them under the key \<open>a\<close>, and two
  strings of the form \<open>uuid4\<close> draws.
\<close>

abbreviation pen :: ItemCreate where
  "pen \<equiv> \<lparr>ItemCreate.name = ''Pen'', description = Some ''old'', price = 3 / 2, tax = None\<rparr>"

abbreviation pen2 :: ItemCreate where
  "pen2 \<equiv> \<lparr>ItemCreate.name = ''Pen2'', description = None, price = 2, tax = None\<rparr>"

abbreviation stored_pen :: Item where
  "stored_pen \<equiv>
     \<lparr>id' = ''a'', name = ''Pen'', description = Some ''old'', price = 3 / 2, tax = None\<rparr>"

abbreviation stored_pen2 :: Item where
  "stored_pen2 \<equiv> \<lparr>id' = ''a'', name = ''Pen2'', description = None, price = 2, tax = None\<rparr>"

abbreviation pen_db :: fake_db where
  "pen_db \<equiv> [(''a'', stored_pen)]"

abbreviation uuid1 :: string where
  "uuid1 \<equiv> ''3f2b8c1e-5d4a-4e7b-9c6f-0a1b2c3d4e5f''"

abbreviation uuid2 :: string where
  "uuid2 \<equiv> ''0a1b2c3d-4e5f-4a6b-8c7d-9e0f1a2b3c4d''"

section \<open>Properties\<close>

subsection \<open>Facts about the dictionary operations\<close>

lemma dict_contains_iff: "dict_contains d k \<longleftrightarrow> k \<in> fst ` set d"
  by (simp add: dict_contains_def map_of_eq_None_iff)

lemma dict_getitem_Some: "map_of d k = Some v \<Longrightarrow> dict_getitem d k = Inr v"
  by (simp add: dict_getitem_def)

lemma dict_getitem_setitem: "dict_getitem (dict_setitem d k v) k = Inr v"
  by (simp add: dict_getitem_def dict_setitem_def update_conv')

lemma dict_contains_setitem: "dict_contains (dict_setitem d k v) k' \<longleftrightarrow> k' = k \<or> dict_contains d k'"
  by (auto simp add: dict_contains_def dict_setitem_def update_conv')

lemma keys_setitem_present:
  "dict_contains d k \<Longrightarrow> map fst (dict_setitem d k v) = map fst d"
  by (simp add: dict_setitem_def update_keys dict_contains_iff)




lemma set_setitem_subset: "set (dict_setitem d k v) \<subseteq> insert (k, v) (set d)"
  unfolding dict_setitem_def by (induction d) auto

lemma keys_setitem: "fst ` set (dict_setitem d k v) = insert k (fst ` set d)"
  by (simp add: dict_setitem_def dom_update)

lemma distinct_setitem: "distinct (map fst d) \<Longrightarrow> distinct (map fst (dict_setitem d k v))"
  by (simp add: dict_setitem_def distinct_update)

lemma id_is_key_iff: "id_is_key d \<longleftrightarrow> (\<forall>(k, v) \<in> set d. id' v = k)"
  by (simp add: id_is_key_def list_all_iff)

lemma id_is_key_setitem: "id_is_key d \<Longrightarrow> id' v = k \<Longrightarrow> id_is_key (dict_setitem d k v)"
  using set_setitem_subset [of d k v] by (auto simp add: id_is_key_iff)

lemma id_is_key_delete: "id_is_key d \<Longrightarrow> id_is_key (AList.delete k d)"
  by (auto simp add: id_is_key_iff AList.delete_eq)

lemma id_is_key_ids: "id_is_key d \<Longrightarrow> map id' (dict_values d) = map fst d"
  by (induction d) (auto simp add: id_is_key_def dict_values_def)

subsection \<open>Facts about the handlers\<close>

lemma delete_item_present:
  "dict_contains d k \<Longrightarrow>
   delete_item k d = (Inr [(''message'', ''Elemento eliminado exitosamente'')], AList.delete k d)"
  by (simp add: delete_item_def dict_delitem_def)

lemma delete_item_absent: "\<not> dict_contains d k \<Longrightarrow> delete_item k d = (Inl NotFound, d)"
  by (simp add: delete_item_def NotFound_def)

lemma read_item_absent: "\<not> dict_contains d k \<Longrightarrow> read_item k d = (Inl NotFound, d)"
  by (simp add: read_item_def NotFound_def)

lemma read_item_present: "map_of d k = Some v \<Longrightarrow> read_item k d = (Inr v, d)"
  by (simp add: read_item_def dict_contains_def dict_getitem_def)

lemma snd_read_item: "snd (read_item k d) = d"
  by (simp add: read_item_def)

lemma snd_update_item:
  "snd (update_item k item d) =
     (if dict_contains d k
      then dict_setitem d k \<lparr>id' = k, name = ItemCreate.name item,
             description = ItemCreate.description item,
             price = ItemCreate.price item, tax = ItemCreate.tax item\<rparr>
      else d)"
  by (simp add: update_item_def Let_def)

lemma snd_create_item:
  "snd (create_item k item d) =
     dict_setitem d k \<lparr>id' = k, name = ItemCreate.name item,
       description = ItemCreate.description item,
       price = ItemCreate.price item, tax = ItemCreate.tax item\<rparr>"
  by (simp add: create_item_def Let_def)

lemma snd_delete_item:
  "snd (delete_item k d) = AList.delete k d"
  by (simp add: delete_item_def dict_delitem_def dict_contains_iff)

lemma serve_keys: "fst ` set (serve r d) \<subseteq> fst ` set d \<union> set (drawn [r])"
proof (cases r)
  case (DELETE_item k)
  then show ?thesis using dom_delete_subset [of k d] by (simp add: snd_delete_item)
qed (auto simp add: snd_create_item snd_update_item snd_read_item read_items_def keys_setitem
       dict_contains_iff)

lemma drawn_Cons: "drawn (r # rs) = drawn [r] @ drawn rs"
  by (cases r) simp_all

lemma run_keys: "fst ` set (run rs d) \<subseteq> fst ` set d \<union> set (drawn rs)"
proof (induction rs arbitrary: d)
  case Nil
  then show ?case by simp
next
  case (Cons r rs)
  have "fst ` set (run (r # rs) d) \<subseteq> fst ` set (serve r d) \<union> set (drawn rs)"
    using Cons.IH [of "serve r d"] by simp
  also have "\<dots> \<subseteq> fst ` set d \<union> set (drawn [r]) \<union> set (drawn rs)"
    using serve_keys [of r d] by blast
  also have "\<dots> = fst ` set d \<union> set (drawn (r # rs))"
    by (subst (2) drawn_Cons) auto
  finally show ?case .
qed

lemma never_drawn_absent: "k \<notin> set (drawn rs) \<Longrightarrow> \<not> dict_contains (run rs []) k"
  using run_keys [of rs "[]"] by (auto simp add: dict_contains_iff)

lemma serve_id_is_key: "id_is_key d \<Longrightarrow> id_is_key (serve r d)"
  by (cases r)
     (simp_all add: snd_create_item snd_update_item snd_read_item snd_delete_item read_items_def
        id_is_key_setitem id_is_key_delete)

lemma serve_distinct: "distinct (map fst d) \<Longrightarrow> distinct (map fst (serve r d))"
  by (cases r)
     (simp_all add: snd_create_item snd_update_item snd_read_item snd_delete_item read_items_def
        distinct_setitem distinct_delete)

lemma run_id_is_key: "id_is_key d \<Longrightarrow> id_is_key (run rs d)"
  by (induction rs arbitrary: d) (simp_all add: serve_id_is_key)

lemma run_distinct: "distinct (map fst d) \<Longrightarrow> distinct (map fst (run rs d))"
  by (induction rs arbitrary: d) (simp_all add: serve_distinct)











lemma response_status_NotFound: "response_status route_status (Inl NotFound) = 404"
  by (simp add: response_status_def NotFound_def HTTP_404_NOT_FOUND_def)

subsection \<open>The claims\<close>

text \<open>
  C1. \<open>update_item\<close> on an id that is a key of the store returns a record with that id
  whose four other fields are those of the input, whatever the record stored before held: an
  optional field the input leaves at \<open>None\<close> is \<open>None\<close> in the result. The record is
  stored under the same key, the keys of the store and their order are unchanged,
  \<open>read_item\<close> on the id then returns exactly this record, and the answer has status 200.
  Where every record of the store has its key as \<open>id\<close>, the new record has the \<open>id\<close> of
  the record it replaces.
\<close>

theorem update_item_replaces:
  assumes "dict_contains fake_db item_id"
  shows "\<exists>updated_item fake_db'.
           update_item item_id item fake_db = (Inr updated_item, fake_db')
         \<and> id' updated_item = item_id
         \<and> Item.name updated_item = ItemCreate.name item
         \<and> Item.description updated_item = ItemCreate.description item
         \<and> Item.price updated_item = ItemCreate.price item
         \<and> Item.tax updated_item = ItemCreate.tax item
         \<and> read_item item_id fake_db' = (Inr updated_item, fake_db')
         \<and> map fst fake_db' = map fst fake_db
         \<and> (id_is_key fake_db \<longrightarrow>
              (\<exists>old_item. dict_getitem fake_db item_id = Inr old_item
                 \<and> id' old_item = id' updated_item))
         \<and> response_status update_item_status (fst (update_item item_id item fake_db)) = 200"
proof -
  from assms obtain old_item where old: "map_of fake_db item_id = Some old_item"
    by (auto simp add: dict_contains_def)
  then have "(item_id, old_item) \<in> set fake_db"
    by (rule map_of_SomeD)
  then have "id' old_item = item_id" if "id_is_key fake_db"
    using that by (auto simp add: id_is_key_iff)
  with old have kept: "id_is_key fake_db \<longrightarrow>
      (\<exists>old_item. dict_getitem fake_db item_id = Inr old_item \<and> id' old_item = item_id)"
    by (simp add: dict_getitem_Some)
  show ?thesis
    using assms kept
    by (simp add: update_item_def Let_def read_item_def dict_contains_setitem
        dict_getitem_setitem keys_setitem_present response_status_def update_item_status_def
        HTTP_200_OK_def)
qed

theorem update_item_replaces_witness:
  "dict_contains pen_db ''a''
   \<and> id_is_key pen_db
   \<and> (\<exists>updated_item fake_db'.
         update_item ''a'' pen2 pen_db = (Inr updated_item, fake_db')
       \<and> id' updated_item = ''a''
       \<and> Item.name updated_item = ''Pen2''
       \<and> Item.description updated_item = None
       \<and> Item.price updated_item = 2
       \<and> Item.tax updated_item = None
       \<and> read_item ''a'' fake_db' = (Inr updated_item, fake_db')
       \<and> (\<exists>old_item. dict_getitem pen_db ''a'' = Inr old_item
             \<and> id' old_item = id' updated_item))"
proof -
  have present: "dict_contains pen_db ''a''"
    by (simp add: dict_contains_def)
  have inv: "id_is_key pen_db"
    by (simp add: id_is_key_def)
  show ?thesis
    using present inv update_item_replaces [OF present, of pen2]
    by auto
qed




text \<open>
  C3. \<open>delete_item\<close> on an id that is a key of the store returns the confirmation message
  and leaves the store without the entries of that key and with every other entry as it
  was, in the same order; \<open>read_item\<close> and \<open>delete_item\<close> on that id then both raise the
  404 exception. \<open>delete_item\<close> on an id that is not a key raises the 404 exception.
\<close>

theorem delete_item_removes:
  "(dict_contains fake_db item_id \<longrightarrow>
      (\<exists>fake_db'.
          delete_item item_id fake_db
            = (Inr [(''message'', ''Elemento eliminado exitosamente'')], fake_db')
        \<and> fake_db' = filter (\<lambda>(k, v). k \<noteq> item_id) fake_db
        \<and> \<not> dict_contains fake_db' item_id
        \<and> (\<forall>k. k \<noteq> item_id \<longrightarrow> map_of fake_db' k = map_of fake_db k)
        \<and> read_item item_id fake_db' = (Inl NotFound, fake_db')
        \<and> delete_item item_id fake_db' = (Inl NotFound, fake_db')
        \<and> response_status read_item_status (fst (read_item item_id fake_db')) = 404
        \<and> response_status delete_item_status (fst (delete_item item_id fake_db')) = 404))
   \<and> (\<not> dict_contains fake_db item_id \<longrightarrow>
        delete_item item_id fake_db = (Inl NotFound, fake_db)
      \<and> response_status delete_item_status (fst (delete_item item_id fake_db)) = 404)"
proof -
  have gone: "\<not> dict_contains (AList.delete item_id fake_db) item_id"
    by (simp add: dict_contains_def delete_conv')
  have filter: "AList.delete item_id fake_db = filter (\<lambda>(k, v). k \<noteq> item_id) fake_db"
    by (induction fake_db) auto
  show ?thesis
    using gone
    by (simp add: delete_item_present delete_item_absent read_item_absent
        response_status_NotFound flip: filter)
qed

theorem delete_item_removes_witness:
  "dict_contains pen_db ''a''
   \<and> delete_item ''a'' pen_db = (Inr [(''message'', ''Elemento eliminado exitosamente'')], [])
   \<and> \<not> dict_contains [] ''a''
   \<and> read_item ''a'' [] = (Inl NotFound, [])
   \<and> delete_item ''a'' [] = (Inl NotFound, [])"
proof -
  have present: "dict_contains pen_db ''a''"
    by (simp add: dict_contains_def)
  have absent: "\<not> dict_contains [] ''a''"
    by (simp add: dict_contains_def)
  show ?thesis
    using present absent delete_item_removes [of pen_db "''a''"]
    by auto
qed

text \<open>
  C4. \<open>read_item\<close> returns a record, the one stored under the id, with status 200, exactly
  when the id is a key of the store, and raises the 404 exception exactly when it is not.
  An id that \<open>uuid4\<close> never drew for a \<open>create_item\<close> call is not a key of any store
  reached from the empty one, so \<open>read_item\<close> raises the 404 exception on it.
\<close>

theorem read_item_found_iff:
  "(dict_contains fake_db item_id \<longleftrightarrow>
      (\<exists>found. read_item item_id fake_db = (Inr found, fake_db)
         \<and> map_of fake_db item_id = Some found
         \<and> response_status read_item_status (fst (read_item item_id fake_db)) = 200))
   \<and> (\<not> dict_contains fake_db item_id \<longleftrightarrow>
        read_item item_id fake_db = (Inl NotFound, fake_db)
      \<and> response_status read_item_status (fst (read_item item_id fake_db)) = 404)
   \<and> (item_id \<notin> set (drawn rs) \<longrightarrow>
        read_item item_id (run rs []) = (Inl NotFound, run rs []))"
proof -
  have present: "\<exists>found. read_item item_id fake_db = (Inr found, fake_db)
         \<and> map_of fake_db item_id = Some found
         \<and> response_status read_item_status (fst (read_item item_id fake_db)) = 200"
    if "dict_contains fake_db item_id"
  proof -
    from that obtain found where found: "map_of fake_db item_id = Some found"
      by (auto simp add: dict_contains_def)
    then show ?thesis
      by (simp add: read_item_present response_status_def read_item_status_def HTTP_200_OK_def)
  qed
  have absent: "read_item item_id fake_db = (Inl NotFound, fake_db)
      \<and> response_status read_item_status (fst (read_item item_id fake_db)) = 404"
    if "\<not> dict_contains fake_db item_id"
    using that
    by (simp add: read_item_absent response_status_def NotFound_def HTTP_404_NOT_FOUND_def)
  have never: "read_item item_id (run rs []) = (Inl NotFound, run rs [])"
    if "item_id \<notin> set (drawn rs)"
    using that by (simp add: never_drawn_absent read_item_absent)
  have present_conv: "dict_contains fake_db item_id" if "map_of fake_db item_id = Some found" for found
    using that by (simp add: dict_contains_def)
  have absent_conv: "\<not> dict_contains fake_db item_id"
    if "read_item item_id fake_db = (Inl NotFound, fake_db)"
  proof
    assume "dict_contains fake_db item_id"
    then obtain found where "read_item item_id fake_db = (Inr found, fake_db)"
      using present by blast
    with that show False by simp
  qed
  show ?thesis
    using present absent never present_conv absent_conv by blast
qed

theorem read_item_found_iff_witness:
  "dict_contains pen_db ''a''
   \<and> (\<exists>found. read_item ''a'' pen_db = (Inr found, pen_db)
         \<and> map_of pen_db ''a'' = Some found)
   \<and> \<not> dict_contains pen_db ''nonexistent''
   \<and> read_item ''nonexistent'' pen_db = (Inl NotFound, pen_db)
   \<and> ''nonexistent'' \<notin> set (drawn [POST_items uuid1 pen, GET_items])
   \<and> read_item ''nonexistent'' (run [POST_items uuid1 pen, GET_items] [])
       = (Inl NotFound, run [POST_items uuid1 pen, GET_items] [])"
proof -
  have present: "dict_contains pen_db ''a''"
    by (simp add: dict_contains_def)
  have absent: "\<not> dict_contains pen_db ''nonexistent''"
    by (simp add: dict_contains_def)
  have never: "''nonexistent'' \<notin> set (drawn [POST_items uuid1 pen, GET_items])"
    by simp
  show ?thesis
    using present absent never
      read_item_found_iff [of pen_db "''a''" "[]"]
      read_item_found_iff [of pen_db "''nonexistent''" "[POST_items uuid1 pen, GET_items]"]
    by blast
qed

text \<open>
  C5. The statement of the specification does not hold of the answer: on an id that is a
  key of the store the answer has the status 204 of the route's decorator, and with this
  status its body is empty. The dictionary that \<open>delete_item\<close> returns does not reach
  the caller.
\<close>

theorem delete_item_empty_body_counterexample:
  "dict_contains pen_db ''a''
   \<and> response_status delete_item_status (fst (delete_item ''a'' pen_db)) = 204
   \<and> response_body delete_item_status (fst (delete_item ''a'' pen_db)) = Empty"
  by (simp add: dict_contains_def delete_item_def dict_delitem_def response_status_def
      response_body_def delete_item_status_def HTTP_204_NO_CONTENT_def
      is_body_allowed_for_status_code_def)

text \<open>
  C5, as amended. On an id that is a key of the store, \<open>delete_item\<close> returns without
  raising, the answer has status 204 and its body is empty: the message
  \<open>{"message": "Elemento eliminado exitosamente"}\<close> that the handler returns is not sent,
  though the same value under a route of status 200 would be.
\<close>

theorem delete_item_answer:
  assumes "dict_contains fake_db item_id"
  shows "fst (delete_item item_id fake_db) = Inr [(''message'', ''Elemento eliminado exitosamente'')]
       \<and> response_status delete_item_status (fst (delete_item item_id fake_db)) = 204
       \<and> response_body delete_item_status (fst (delete_item item_id fake_db)) = Empty
       \<and> response_body HTTP_200_OK (fst (delete_item item_id fake_db))
           = Json [(''message'', ''Elemento eliminado exitosamente'')]"
  using assms
  by (simp add: delete_item_present response_status_def response_body_def delete_item_status_def
      HTTP_204_NO_CONTENT_def HTTP_200_OK_def is_body_allowed_for_status_code_def)

theorem delete_item_answer_witness:
  "dict_contains [(uuid1, stored_pen), (''a'', stored_pen)] ''a''
   \<and> fst (delete_item ''a'' [(uuid1, stored_pen), (''a'', stored_pen)])
       = Inr [(''message'', ''Elemento eliminado exitosamente'')]
   \<and> response_status delete_item_status
        (fst (delete_item ''a'' [(uuid1, stored_pen), (''a'', stored_pen)])) = 204
   \<and> response_body delete_item_status
        (fst (delete_item ''a'' [(uuid1, stored_pen), (''a'', stored_pen)])) = Empty"
proof -
  have present: "dict_contains [(uuid1, stored_pen), (''a'', stored_pen)] ''a''"
    by (simp add: dict_contains_def)
  show ?thesis
    using present delete_item_answer [OF present]
    by blast
qed




text \<open>
  C7. \<open>update_item\<close> and \<open>delete_item\<close> on an id that is not a key of the store raise the
  404 exception and leave the store as it was.
\<close>

theorem absent_id_store_unchanged:
  assumes "\<not> dict_contains fake_db item_id"
  shows "update_item item_id item fake_db = (Inl NotFound, fake_db)
       \<and> delete_item item_id fake_db = (Inl NotFound, fake_db)
       \<and> response_status update_item_status (fst (update_item item_id item fake_db)) = 404
       \<and> response_status delete_item_status (fst (delete_item item_id fake_db)) = 404"
  using assms
  by (simp add: update_item_def delete_item_def NotFound_def response_status_def HTTP_404_NOT_FOUND_def)

theorem absent_id_store_unchanged_witness:
  "\<not> dict_contains pen_db ''nonexistent''
   \<and> update_item ''nonexistent'' pen2 pen_db = (Inl NotFound, pen_db)
   \<and> delete_item ''nonexistent'' pen_db = (Inl NotFound, pen_db)"
proof -
  have absent: "\<not> dict_contains pen_db ''nonexistent''"
    by (simp add: dict_contains_def)
  show ?thesis
    using absent absent_id_store_unchanged [OF absent, of pen2]
    by blast
qed




text \<open>
  C9. Where every record of the store has its key as \<open>id\<close>, \<open>update_item\<close> leaves the ids
  of the stored records as they were, for every id and input; on an id that is a key, the
  record it returns and stores has that id and the keys of the store are unchanged.
  \<open>read_item\<close> and \<open>read_items\<close> leave the store as it was.
\<close>

theorem id_and_reads_frame:
  "(id_is_key fake_db \<longrightarrow>
      map id' (dict_values (snd (update_item item_id item fake_db))) = map id' (dict_values fake_db))
   \<and> (dict_contains fake_db item_id \<longrightarrow>
        (\<exists>updated_item fake_db'.
            update_item item_id item fake_db = (Inr updated_item, fake_db')
          \<and> id' updated_item = item_id
          \<and> map fst fake_db' = map fst fake_db
          \<and> dict_getitem fake_db' item_id = Inr updated_item))
   \<and> snd (read_item item_id fake_db) = fake_db
   \<and> snd (read_items fake_db) = fake_db"
proof -
  let ?updated = "\<lparr>id' = item_id, name = ItemCreate.name item,
     description = ItemCreate.description item,
     price = ItemCreate.price item, tax = ItemCreate.tax item\<rparr>"
  have ids: "map id' (dict_values (snd (update_item item_id item fake_db))) = map id' (dict_values fake_db)"
    if inv: "id_is_key fake_db"
  proof (cases "dict_contains fake_db item_id")
    case True
    have "id_is_key (dict_setitem fake_db item_id ?updated)"
      using inv by (rule id_is_key_setitem) simp
    then have "map id' (dict_values (dict_setitem fake_db item_id ?updated))
        = map fst (dict_setitem fake_db item_id ?updated)"
      by (rule id_is_key_ids)
    also have "\<dots> = map fst fake_db"
      using True by (rule keys_setitem_present)
    also have "\<dots> = map id' (dict_values fake_db)"
      using inv by (simp add: id_is_key_ids)
    finally show ?thesis
      using True by (simp add: snd_update_item)
  next
    case False
    then show ?thesis by (simp add: snd_update_item)
  qed
  have upd: "\<exists>updated_item fake_db'.
            update_item item_id item fake_db = (Inr updated_item, fake_db')
          \<and> id' updated_item = item_id
          \<and> map fst fake_db' = map fst fake_db
          \<and> dict_getitem fake_db' item_id = Inr updated_item"
    if "dict_contains fake_db item_id"
    using that
    by (simp add: update_item_def Let_def keys_setitem_present dict_getitem_setitem)
  show ?thesis
    using ids upd by (simp add: snd_read_item read_items_def)
qed

theorem id_and_reads_frame_witness:
  "id_is_key pen_db \<and> dict_contains pen_db ''a''
   \<and> map id' (dict_values (snd (update_item ''a'' pen2 pen_db))) = map id' (dict_values pen_db)
   \<and> (\<exists>updated_item fake_db'.
         update_item ''a'' pen2 pen_db = (Inr updated_item, fake_db')
       \<and> id' updated_item = ''a''
       \<and> map fst fake_db' = map fst pen_db
       \<and> dict_getitem fake_db' ''a'' = Inr updated_item)
   \<and> snd (read_item ''a'' pen_db) = pen_db
   \<and> snd (read_items pen_db) = pen_db"
proof -
  have inv: "id_is_key pen_db"
    by (simp add: id_is_key_def)
  have present: "dict_contains pen_db ''a''"
    by (simp add: dict_contains_def)
  show ?thesis
    using inv present id_and_reads_frame [of pen_db "''a''" pen2]
    by blast
qed

text \<open>
  C10. In every store reached from the empty one by a sequence of requests, each record has
  as its \<open>id\<close> the key it is stored under, the keys are pairwise different and so are the
  ids of the stored records; and each single request keeps these properties.
\<close>

theorem id_is_key_invariant:
  "id_is_key (run rs [])
   \<and> distinct (map fst (run rs []))
   \<and> distinct (map id' (dict_values (run rs [])))
   \<and> (id_is_key fake_db \<and> distinct (map fst fake_db) \<longrightarrow>
        id_is_key (serve r fake_db) \<and> distinct (map fst (serve r fake_db))
      \<and> distinct (map id' (dict_values (serve r fake_db))))"
proof -
  have inv: "id_is_key (run rs [])"
    by (rule run_id_is_key) (simp add: id_is_key_def)
  have dist: "distinct (map fst (run rs []))"
    by (rule run_distinct) simp
  have ids: "distinct (map id' (dict_values (run rs [])))"
    using inv dist by (simp add: id_is_key_ids)
  have step: "id_is_key (serve r fake_db) \<and> distinct (map fst (serve r fake_db))
      \<and> distinct (map id' (dict_values (serve r fake_db)))"
    if "id_is_key fake_db" and "distinct (map fst fake_db)"
  proof -
    have a: "id_is_key (serve r fake_db)"
      using that(1) by (rule serve_id_is_key)
    have b: "distinct (map fst (serve r fake_db))"
      using that(2) by (rule serve_distinct)
    show ?thesis
      using a b by (simp add: id_is_key_ids)
  qed
  show ?thesis
    using inv dist ids step by blast
qed

theorem id_is_key_invariant_witness:
  "id_is_key (run [POST_items uuid1 pen, PUT_item uuid1 pen2, DELETE_item uuid2] [])
   \<and> distinct (map fst (run [POST_items uuid1 pen, PUT_item uuid1 pen2, DELETE_item uuid2] []))
   \<and> id_is_key pen_db \<and> distinct (map fst pen_db)
   \<and> id_is_key (serve (POST_items ''a'' pen2) pen_db)
   \<and> distinct (map fst (serve (POST_items ''a'' pen2) pen_db))
   \<and> distinct (map id' (dict_values (serve (POST_items ''a'' pen2) pen_db)))"
proof -
  have inv: "id_is_key pen_db"
    by (simp add: id_is_key_def)
  have keys: "distinct (map fst pen_db)"
    by simp
  show ?thesis
    using inv keys
      id_is_key_invariant [of "[POST_items uuid1 pen, PUT_item uuid1 pen2, DELETE_item uuid2]"
        pen_db "POST_items ''a'' pen2"]
    by blast
qed

end
